theory Spec2Isabelle
  imports Main
begin

section \<open>The move state-change journal\<close>

text \<open>
  The script creates, queues and applies the state changes of a move to the gamefile.
  A move owns two ordered arrays of state changes, \<open>local\<close> and \<open>global\<close>; the
  recorders \<open>createCheckState\<close>, \<open>createAttackersState\<close>, \<open>createEnPassantState\<close>,
  \<open>createSpecialRightsState\<close> and \<open>createMoveRuleState\<close> push onto them, and
  \<open>applyMove\<close> / \<open>applyState\<close> replay them on the gamefile, forward or backward.

  The gamefile and the move are mutable JavaScript objects. The model passes them
  explicitly: a function that mutates an object returns the updated object.
\<close>

subsection \<open>Type definitions\<close>

type_synonym Coords = "int \<times> int"

type_synonym CoordsKey = string

text \<open>\<open>type inCheck = false | Coords[]\<close>\<close>

datatype inCheck = NotInCheck | InCheck "Coords list"

text \<open>
  \<open>type attacker = { coords } & ({ slidingCheck: true } | { slidingCheck: false, path? })\<close>.
  The type \<open>path\<close> is imported from movepiece.js; it is a list of coordinates.
\<close>

type_synonym path = "Coords list"

datatype attacker =
    SlidingAttacker Coords
  | NonSlidingAttacker Coords "path option"

type_synonym attackers = "attacker list"

text \<open>
  \<open>interface EnPassant { square: Coords, pawn: Coords }\<close>. An en-passant value is a
  JavaScript object, and \<open>===\<close> on objects compares identity, not contents. A value
  of the program is therefore a reference; the objects themselves live in a heap, which
  the journal never reads. HOL equality on references is \<open>===\<close>.
\<close>

record EnPassant =
  square :: Coords
  pawn :: Coords

type_synonym EnPassantRef = nat

type_synonym EnPassantHeap = "EnPassantRef \<Rightarrow> EnPassant option"

text \<open>Two references denote structurally equal objects: same square, same pawn.\<close>

definition structurallyEqual :: "EnPassantHeap \<Rightarrow> EnPassantRef \<Rightarrow> EnPassantRef \<Rightarrow> bool" where
  "structurallyEqual heap a b =
     (case heap a of
        None \<Rightarrow> False
      | Some x \<Rightarrow> (case heap b of
                     None \<Rightarrow> False
                   | Some y \<Rightarrow> square x = square y \<and> pawn x = pawn y))"

text \<open>
  \<open>type StateChange\<close>: a union discriminated by the \<open>type\<close> tag, one constructor per
  tag, each with \<open>current\<close> and then \<open>future\<close> (and the \<open>coordsKey\<close> of a
  special-rights change last). \<open>None\<close> is the JavaScript \<open>undefined\<close>: the
  en-passant fields are declared optional, and \<open>applyState\<close> also tests the selected
  value of an attackers change against \<open>undefined\<close>, although its declared type is a
  plain array.
\<close>

datatype StateChange =
    Check inCheck inCheck
  | Attackers "attackers option" "attackers option"
  | Enpassant "EnPassantRef option" "EnPassantRef option"
  | Specialrights bool bool CoordsKey
  | Moverulestate int int

record MoveState =
  local :: "StateChange list"
  global :: "StateChange list"

text \<open>
  A \<open>Move\<close> (or \<open>NullMove\<close>) carries its \<open>state\<close>; its other properties are the
  extension part of the record, which the journal never touches.
\<close>

record Move =
  state :: MoveState

text \<open>
  The properties of the gamefile that the journal writes; every other property of the
  gamefile is the extension part of the record. \<open>specialRights\<close> is a set of
  coordinate keys (\<open>add\<close> and \<open>delete\<close> are called on it), and an absent
  \<open>enpassant\<close> property reads as \<open>undefined\<close>.
\<close>

record gamefile =
  inCheck :: inCheck
  attackers :: attackers
  enpassant :: "EnPassantRef option"
  specialRights :: "CoordsKey set"
  moveRuleState :: int

subsection \<open>Applying state changes\<close>

text \<open>
  \<open>applyState(gamefile, state, forward)\<close>. The selected value is
  \<open>forward ? state.future : state.current\<close>, and \<open>noNewValue\<close> says that it is
  \<open>undefined\<close>. The cases are in the order of the \<open>switch\<close>.
\<close>

fun applyState :: "'g gamefile_scheme \<Rightarrow> StateChange \<Rightarrow> bool \<Rightarrow> 'g gamefile_scheme" where
  "applyState gamefile (Specialrights current future coordsKey) forward =
     (if \<not> (if forward then future else current)
      then gamefile\<lparr>specialRights := specialRights gamefile - {coordsKey}\<rparr>
      else gamefile\<lparr>specialRights := insert coordsKey (specialRights gamefile)\<rparr>)"
| "applyState gamefile (Check current future) forward =
     gamefile\<lparr>inCheck := (if forward then future else current)\<rparr>"
| "applyState gamefile (Attackers current future) forward =
     (case (if forward then future else current) of
        None \<Rightarrow> gamefile\<lparr>attackers := []\<rparr>
      | Some newValue \<Rightarrow> gamefile\<lparr>attackers := newValue\<rparr>)"
| "applyState gamefile (Enpassant current future) forward =
     (case (if forward then future else current) of
        None \<Rightarrow> gamefile\<lparr>enpassant := None\<rparr>
      | Some newValue \<Rightarrow> gamefile\<lparr>enpassant := Some newValue\<rparr>)"
| "applyState gamefile (Moverulestate current future) forward =
     gamefile\<lparr>moveRuleState := (if forward then future else current)\<rparr>"

text \<open>The loop \<open>for (const change of changes) applyState(gamefile, change, forward)\<close>.\<close>

fun applyStates :: "'g gamefile_scheme \<Rightarrow> StateChange list \<Rightarrow> bool \<Rightarrow> 'g gamefile_scheme" where
  "applyStates gamefile [] forward = gamefile"
| "applyStates gamefile (change # changes) forward =
     applyStates (applyState gamefile change forward) changes forward"

text \<open>
  \<open>applyMove(gamefile, move, forward, { globalChange = false })\<close>: the local changes,
  then, unless \<open>globalChange\<close> is false, the global ones.
\<close>

definition applyMove ::
    "'g gamefile_scheme \<Rightarrow> 'm Move_scheme \<Rightarrow> bool \<Rightarrow> bool \<Rightarrow> 'g gamefile_scheme" where
  "applyMove gamefile move forward globalChange =
     (let gamefile1 = applyStates gamefile (local (state move)) forward
      in if \<not> globalChange then gamefile1
         else applyStates gamefile1 (global (state move)) forward)"

subsection \<open>Creating local state changes\<close>

text \<open>\<open>move.state.local.push(change)\<close> and \<open>move.state.global.push(change)\<close>.\<close>

definition pushLocal :: "'m Move_scheme \<Rightarrow> StateChange \<Rightarrow> 'm Move_scheme" where
  "pushLocal move change =
     move\<lparr>state := (state move)\<lparr>local := local (state move) @ [change]\<rparr>\<rparr>"

definition pushGlobal :: "'m Move_scheme \<Rightarrow> StateChange \<Rightarrow> 'm Move_scheme" where
  "pushGlobal move change =
     move\<lparr>state := (state move)\<lparr>global := global (state move) @ [change]\<rparr>\<rparr>"

text \<open>
  The local recorders push the change and apply it to the gamefile at once; they return
  the updated move and the updated gamefile.
\<close>

definition createCheckState ::
    "'m Move_scheme \<Rightarrow> inCheck \<Rightarrow> inCheck \<Rightarrow> 'g gamefile_scheme
      \<Rightarrow> 'm Move_scheme \<times> 'g gamefile_scheme" where
  "createCheckState move current future gamefile =
     (let newStateChange = Check current future
      in (pushLocal move newStateChange, applyState gamefile newStateChange True))"

definition createAttackersState ::
    "'m Move_scheme \<Rightarrow> attackers option \<Rightarrow> attackers option \<Rightarrow> 'g gamefile_scheme
      \<Rightarrow> 'm Move_scheme \<times> 'g gamefile_scheme" where
  "createAttackersState move current future gamefile =
     (let newStateChange = Attackers current future
      in (pushLocal move newStateChange, applyState gamefile newStateChange True))"

subsection \<open>Creating global state changes\<close>

text \<open>
  The \<open>type\<close> property of a state change, read by \<open>state.type === 'enpassant'\<close>.
\<close>

fun stateType :: "StateChange \<Rightarrow> string" where
  "stateType (Check current future) = ''check''"
| "stateType (Attackers current future) = ''attackers''"
| "stateType (Enpassant current future) = ''enpassant''"
| "stateType (Specialrights current future coordsKey) = ''specialrights''"
| "stateType (Moverulestate current future) = ''moverulestate''"

text \<open>
  \<open>preExistingEnPassantState.future = future\<close>, where the pre-existing change is the
  one \<open>move.state.global.find\<close> returns, the first of type en-passant: the array
  holds that very object, so the assignment shows in the array.
\<close>

fun setFuture :: "StateChange \<Rightarrow> EnPassantRef option \<Rightarrow> StateChange" where
  "setFuture (Enpassant current old) future = Enpassant current future"
| "setFuture change future = change"

fun overwritePreExisting :: "StateChange list \<Rightarrow> EnPassantRef option \<Rightarrow> StateChange list" where
  "overwritePreExisting [] future = []"
| "overwritePreExisting (change # changes) future =
     (if stateType change = ''enpassant'' then setFuture change future # changes
      else change # overwritePreExisting changes future)"

definition createEnPassantState ::
    "'m Move_scheme \<Rightarrow> EnPassantRef option \<Rightarrow> EnPassantRef option \<Rightarrow> 'm Move_scheme" where
  "createEnPassantState move current future =
     (if current = future then move
      else
        let newStateChange = Enpassant current future
        in case find (\<lambda>state. stateType state = ''enpassant'') (global (state move)) of
             Some preExistingEnPassantState \<Rightarrow>
               move\<lparr>state := (state move)
                 \<lparr>global := overwritePreExisting (global (state move)) future\<rparr>\<rparr>
           | None \<Rightarrow> pushGlobal move newStateChange)"

definition createSpecialRightsState ::
    "'m Move_scheme \<Rightarrow> CoordsKey \<Rightarrow> bool \<Rightarrow> bool \<Rightarrow> 'm Move_scheme" where
  "createSpecialRightsState move coordsKey current future =
     (if current = future then move
      else pushGlobal move (Specialrights current future coordsKey))"

definition createMoveRuleState :: "'m Move_scheme \<Rightarrow> int \<Rightarrow> int \<Rightarrow> 'm Move_scheme" where
  "createMoveRuleState move current future =
     (if current = future then move
      else pushGlobal move (Moverulestate current future))"

subsection \<open>Populating a move\<close>

text \<open>
  A move is populated by a series of calls of the five recorders while it is constructed.
  One call is a value of \<open>RecorderCall\<close>, with the arguments in the order of the
  recorder's parameters; \<open>recordCall\<close> runs the recorder on the move and the
  gamefile, and \<open>recordCalls\<close> runs a series of calls in order.
\<close>

datatype RecorderCall =
    CheckCall inCheck inCheck
  | AttackersCall "attackers option" "attackers option"
  | EnPassantCall "EnPassantRef option" "EnPassantRef option"
  | SpecialRightsCall CoordsKey bool bool
  | MoveRuleCall int int

fun recordCall ::
    "'m Move_scheme \<times> 'g gamefile_scheme \<Rightarrow> RecorderCall
      \<Rightarrow> 'm Move_scheme \<times> 'g gamefile_scheme" where
  "recordCall (move, gamefile) (CheckCall current future) =
     createCheckState move current future gamefile"
| "recordCall (move, gamefile) (AttackersCall current future) =
     createAttackersState move current future gamefile"
| "recordCall (move, gamefile) (EnPassantCall current future) =
     (createEnPassantState move current future, gamefile)"
| "recordCall (move, gamefile) (SpecialRightsCall coordsKey current future) =
     (createSpecialRightsState move coordsKey current future, gamefile)"
| "recordCall (move, gamefile) (MoveRuleCall current future) =
     (createMoveRuleState move current future, gamefile)"

fun recordCalls ::
    "'m Move_scheme \<times> 'g gamefile_scheme \<Rightarrow> RecorderCall list
      \<Rightarrow> 'm Move_scheme \<times> 'g gamefile_scheme" where
  "recordCalls moveAndGamefile [] = moveAndGamefile"
| "recordCalls moveAndGamefile (call # calls) =
     recordCalls (recordCall moveAndGamefile call) calls"

text \<open>
  The \<open>current\<close> argument of a call is the value the gamefile has for the property
  the call records: the check indicator, the attacker list, the en-passant reference,
  whether the square key is in the special-rights set, the move-rule counter.
\<close>

fun callMatches :: "'g gamefile_scheme \<Rightarrow> RecorderCall \<Rightarrow> bool" where
  "callMatches gamefile (CheckCall current future) = (current = inCheck gamefile)"
| "callMatches gamefile (AttackersCall current future) = (current = Some (attackers gamefile))"
| "callMatches gamefile (EnPassantCall current future) = (current = enpassant gamefile)"
| "callMatches gamefile (SpecialRightsCall coordsKey current future) =
     (current = (coordsKey \<in> specialRights gamefile))"
| "callMatches gamefile (MoveRuleCall current future) = (current = moveRuleState gamefile)"

text \<open>The same for a state change that is already in a move.\<close>

fun changeMatches :: "'g gamefile_scheme \<Rightarrow> StateChange \<Rightarrow> bool" where
  "changeMatches gamefile (Check current future) = (current = inCheck gamefile)"
| "changeMatches gamefile (Attackers current future) = (current = Some (attackers gamefile))"
| "changeMatches gamefile (Enpassant current future) = (current = enpassant gamefile)"
| "changeMatches gamefile (Specialrights current future coordsKey) =
     (current = (coordsKey \<in> specialRights gamefile))"
| "changeMatches gamefile (Moverulestate current future) = (current = moveRuleState gamefile)"

text \<open>The local kinds of state change are check and attackers.\<close>

definition isLocalKind :: "StateChange \<Rightarrow> bool" where
  "isLocalKind change = (stateType change = ''check'' \<or> stateType change = ''attackers'')"

text \<open>The global kinds are en-passant, special-rights and move-rule.\<close>

definition isGlobalKind :: "StateChange \<Rightarrow> bool" where
  "isGlobalKind change =
     (stateType change = ''enpassant'' \<or> stateType change = ''specialrights''
      \<or> stateType change = ''moverulestate'')"

text \<open>
  The same at the time of each call: every call passes as \<open>current\<close> the value the
  gamefile has when the call is made, after the calls before it.
\<close>

fun callsMatch :: "'m Move_scheme \<times> 'g gamefile_scheme \<Rightarrow> RecorderCall list \<Rightarrow> bool" where
  "callsMatch moveAndGamefile [] = True"
| "callsMatch moveAndGamefile (call # calls) =
     (callMatches (snd moveAndGamefile) call
      \<and> callsMatch (recordCall moveAndGamefile call) calls)"

text \<open>
  The type of the state change a call records, and: a series of calls records the
  given type at most once.
\<close>

fun callType :: "RecorderCall \<Rightarrow> string" where
  "callType (CheckCall current future) = ''check''"
| "callType (AttackersCall current future) = ''attackers''"
| "callType (EnPassantCall current future) = ''enpassant''"
| "callType (SpecialRightsCall coordsKey current future) = ''specialrights''"
| "callType (MoveRuleCall current future) = ''moverulestate''"

definition atMostOnce :: "string \<Rightarrow> RecorderCall list \<Rightarrow> bool" where
  "atMostOnce type calls = (length (filter (\<lambda>call. callType call = type) calls) \<le> 1)"

subsection \<open>Notions for the properties\<close>

text \<open>The en-passant changes of an array of state changes, in order.\<close>

definition enPassantChanges :: "StateChange list \<Rightarrow> StateChange list" where
  "enPassantChanges changes = filter (\<lambda>state. stateType state = ''enpassant'') changes"

definition atMostOneEnPassant :: "StateChange list \<Rightarrow> bool" where
  "atMostOneEnPassant changes = (length (enPassantChanges changes) \<le> 1)"

text \<open>An array of state changes holds a change of the given type.\<close>

definition touches :: "StateChange list \<Rightarrow> string \<Rightarrow> bool" where
  "touches changes type = list_ex (\<lambda>change. stateType change = type) changes"

text \<open>The square key a state change writes in the special-rights set, if any.\<close>

fun coordsKeyOf :: "StateChange \<Rightarrow> CoordsKey set" where
  "coordsKeyOf (Specialrights current future coordsKey) = {coordsKey}"
| "coordsKeyOf change = {}"

text \<open>
  What holds of a move and a gamefile while the move is populated from a gamefile
  \<open>gamefile0\<close> by calls whose current values are those of \<open>gamefile0\<close>: every
  change in the move has the value of \<open>gamefile0\<close> as its current value, and the
  gamefile differs from \<open>gamefile0\<close> at most in the check indicator and the attacker
  list, and there only when the move has a change of that type.
\<close>

definition populatedFrom ::
    "'g gamefile_scheme \<Rightarrow> 'm Move_scheme \<times> 'g gamefile_scheme \<Rightarrow> bool" where
  "populatedFrom gamefile0 moveAndGamefile =
     (list_all (changeMatches gamefile0) (local (state (fst moveAndGamefile)))
      \<and> list_all (changeMatches gamefile0) (global (state (fst moveAndGamefile)))
      \<and> (\<not> touches (local (state (fst moveAndGamefile))) ''check'' \<longrightarrow>
            inCheck (snd moveAndGamefile) = inCheck gamefile0)
      \<and> (\<not> touches (local (state (fst moveAndGamefile))) ''attackers'' \<longrightarrow>
            attackers (snd moveAndGamefile) = attackers gamefile0)
      \<and> enpassant (snd moveAndGamefile) = enpassant gamefile0
      \<and> specialRights (snd moveAndGamefile) = specialRights gamefile0
      \<and> moveRuleState (snd moveAndGamefile) = moveRuleState gamefile0
      \<and> gamefile.more (snd moveAndGamefile) = gamefile.more gamefile0)"

subsection \<open>Example values\<close>

text \<open>
  A gamefile not in check, with an en-passant object (reference 7), special rights on
  the square \<open>5,1\<close> and a move-rule counter of 3; a move with no state changes yet;
  a move as the recorders leave it; and a heap in which the references 1 and 2 are two
  objects with the same square and pawn.
\<close>

definition exampleGamefile :: gamefile where
  "exampleGamefile =
     \<lparr>inCheck = NotInCheck, attackers = [], enpassant = Some 7,
       specialRights = {''5,1''}, moveRuleState = 3\<rparr>"

definition emptyMove :: Move where
  "emptyMove = \<lparr>state = \<lparr>local = [], global = []\<rparr>\<rparr>"

definition exampleMove :: Move where
  "exampleMove =
     \<lparr>state = \<lparr>local = [Check NotInCheck (InCheck [(4, 5)])],
                global = [Enpassant (Some 7) None, Specialrights True False ''5,1'',
                          Moverulestate 3 0]\<rparr>\<rparr>"

text \<open>
  The calls of a move that clears the en-passant square, takes the special rights of
  \<open>5,1\<close>, resets the move-rule counter and gives check, each with the value of
  \<open>exampleGamefile\<close> as its current value.
\<close>

definition exampleCalls :: "RecorderCall list" where
  "exampleCalls =
     [EnPassantCall (Some 7) None, SpecialRightsCall ''5,1'' True False, MoveRuleCall 3 0,
      CheckCall NotInCheck (InCheck [(4, 5)]),
      AttackersCall (Some []) (Some [SlidingAttacker (4, 5)])]"

definition exampleHeap :: EnPassantHeap where
  "exampleHeap =
     (\<lambda>ref. if ref = 1 \<or> ref = 2 then Some \<lparr>square = (3, 6), pawn = (3, 5)\<rparr> else None)"

section \<open>Properties\<close>

subsection \<open>The replay loop\<close>

lemma applyStates_foldl:
  "applyStates gamefile changes forward =
     foldl (\<lambda>g change. applyState g change forward) gamefile changes"
  by (induction changes arbitrary: gamefile) simp_all

lemma applyStates_append:
  "applyStates gamefile (changes @ changes') forward =
     applyStates (applyStates gamefile changes forward) changes' forward"
  by (induction changes arbitrary: gamefile) simp_all

lemma applyState_more: "gamefile.more (applyState gamefile change forward) = gamefile.more gamefile"
  by (cases change) (simp_all split: option.splits)

lemma applyStates_more: "gamefile.more (applyStates gamefile changes forward) = gamefile.more gamefile"
  by (induction changes arbitrary: gamefile) (simp_all add: applyState_more)

lemma applyMove_more:
  "gamefile.more (applyMove gamefile move forward globalChange) = gamefile.more gamefile"
  by (simp add: applyMove_def Let_def applyStates_more)

text \<open>
  Claim C6. For every move, gamefile and direction, \<open>applyMove\<close> applies the changes
  of \<open>move.state.local\<close> from the first pushed to the last, and with
  \<open>globalChange\<close> then the changes of \<open>move.state.global\<close> from the first pushed
  to the last: it is the left fold of \<open>applyState\<close> over the arrays as they are, and
  a push puts a change at the end of its array. The direction is only handed to
  \<open>applyState\<close>; it is the same fold for both directions, so going backward does not
  reverse the order: a move with the local changes \<open>a\<close>, \<open>b\<close> and the global
  changes \<open>c\<close>, \<open>d\<close> has them applied as \<open>a\<close>, \<open>b\<close>, \<open>c\<close>, \<open>d\<close> in
  either direction.
\<close>

theorem applyMove_insertion_order:
  "applyMove gamefile move forward True =
     foldl (\<lambda>g change. applyState g change forward) gamefile
       (local (state move) @ global (state move))
   \<and> applyMove gamefile move forward False =
     foldl (\<lambda>g change. applyState g change forward) gamefile (local (state move))
   \<and> applyMove gamefile \<lparr>state = \<lparr>local = [a, b], global = [c, d]\<rparr>\<rparr> forward True =
     applyState (applyState (applyState (applyState gamefile a forward) b forward) c forward)
       d forward
   \<and> local (state (pushLocal move change)) = local (state move) @ [change]
   \<and> global (state (pushGlobal move change)) = global (state move) @ [change]"
  by (simp add: applyMove_def applyStates_foldl pushLocal_def pushGlobal_def)

subsection \<open>The recorders\<close>

text \<open>
  Claim C4. For every move and every value, a global recorder called with a current
  value equal to the future value returns at once: the move, and so the length and the
  contents of \<open>move.state.global\<close>, is unchanged. For the en-passant recorder equal
  means the same reference, or both undefined.
\<close>

theorem global_recorders_skip_equal_values:
  "createEnPassantState move X X = move
   \<and> createSpecialRightsState move coordsKey B B = move
   \<and> createMoveRuleState move N N = move"
  by (simp add: createEnPassantState_def createSpecialRightsState_def createMoveRuleState_def)

text \<open>
  Claim C7. For every move, gamefile, current and future value, \<open>createCheckState\<close>
  pushes a check change with these values at the end of \<open>move.state.local\<close>, also
  when the two values are equal, leaves \<open>move.state.global\<close> alone, and the gamefile
  it returns has the future value as its check indicator. \<open>createAttackersState\<close>
  does the same with an attackers change and the attacker list, for every future value
  of its declared type, an array.
\<close>

theorem local_recorders_push_and_apply:
  "local (state (fst (createCheckState move current future gamefile)))
     = local (state move) @ [Check current future]
   \<and> global (state (fst (createCheckState move current future gamefile)))
     = global (state move)
   \<and> inCheck (snd (createCheckState move current future gamefile)) = future
   \<and> local (state (fst (createAttackersState move currentAttackers (Some futureAttackers) gamefile)))
     = local (state move) @ [Attackers currentAttackers (Some futureAttackers)]
   \<and> global (state (fst (createAttackersState move currentAttackers (Some futureAttackers) gamefile)))
     = global (state move)
   \<and> attackers (snd (createAttackersState move currentAttackers (Some futureAttackers) gamefile))
     = futureAttackers"
  by (simp add: createCheckState_def createAttackersState_def pushLocal_def)

text \<open>
  An undefined future value, which the declared type of the parameter excludes, is
  recorded as it is, and \<open>applyState\<close> then resets the attacker list to the empty
  array.
\<close>

lemma createAttackersState_undefined_future:
  "local (state (fst (createAttackersState move current None gamefile)))
     = local (state move) @ [Attackers current None]
   \<and> attackers (snd (createAttackersState move current None gamefile)) = []"
  by (simp add: createAttackersState_def pushLocal_def)

subsection \<open>What a state change writes\<close>

text \<open>
  Claim C9. For every gamefile, state change and direction, \<open>applyState\<close> leaves every
  property of the gamefile other than \<open>inCheck\<close>, \<open>attackers\<close>, \<open>enpassant\<close>,
  \<open>specialRights\<close> and \<open>moveRuleState\<close> as it was, and of these five it can change
  only the one of the kind of the state change. \<open>applyMove\<close> too leaves every other
  property as it was.
\<close>

theorem applyState_frame:
  "gamefile.more (applyState gamefile change forward) = gamefile.more gamefile
   \<and> (stateType change \<noteq> ''check'' \<longrightarrow>
        inCheck (applyState gamefile change forward) = inCheck gamefile)
   \<and> (stateType change \<noteq> ''attackers'' \<longrightarrow>
        attackers (applyState gamefile change forward) = attackers gamefile)
   \<and> (stateType change \<noteq> ''enpassant'' \<longrightarrow>
        enpassant (applyState gamefile change forward) = enpassant gamefile)
   \<and> (stateType change \<noteq> ''specialrights'' \<longrightarrow>
        specialRights (applyState gamefile change forward) = specialRights gamefile)
   \<and> (stateType change \<noteq> ''moverulestate'' \<longrightarrow>
        moveRuleState (applyState gamefile change forward) = moveRuleState gamefile)
   \<and> gamefile.more (applyMove gamefile move forward globalChange) = gamefile.more gamefile"
  by (cases change) (simp_all add: applyMove_more split: option.splits)

theorem applyState_frame_witness:
  "inCheck (applyState
      \<lparr>inCheck = InCheck [(4, 5)], attackers = [SlidingAttacker (4, 5)], enpassant = Some 7,
        specialRights = {''5,1''}, moveRuleState = 3\<rparr> (Moverulestate 3 0) True)
     = InCheck [(4, 5)]
   \<and> moveRuleState (applyState
      \<lparr>inCheck = InCheck [(4, 5)], attackers = [SlidingAttacker (4, 5)], enpassant = Some 7,
        specialRights = {''5,1''}, moveRuleState = 3\<rparr> (Moverulestate 3 0) True)
     = 0"
  using applyState_frame [of
      "\<lparr>inCheck = InCheck [(4, 5)], attackers = [SlidingAttacker (4, 5)], enpassant = Some 7,
        specialRights = {''5,1''}, moveRuleState = 3\<rparr>" "Moverulestate 3 0" True]
  by simp

subsection \<open>A single special-rights change\<close>

text \<open>
  Claim C8. For every gamefile and every special-rights change of a square key
  \<open>K\<close> with current \<open>true\<close> and future \<open>false\<close>, applying the change forward
  removes \<open>K\<close> from the special-rights set, and applying it backward inserts
  \<open>K\<close> into the set; backward after forward leaves \<open>K\<close> in the set.
\<close>

theorem specialrights_forward_removes_backward_inserts:
  "specialRights (applyState gamefile (Specialrights True False K) True)
     = specialRights gamefile - {K}
   \<and> specialRights (applyState gamefile (Specialrights True False K) False)
     = insert K (specialRights gamefile)
   \<and> K \<notin> specialRights (applyState gamefile (Specialrights True False K) True)
   \<and> K \<in> specialRights (applyState
       (applyState gamefile (Specialrights True False K) True)
       (Specialrights True False K) False)"
  by simp

subsection \<open>Fields no change of the move writes\<close>

lemma touches_simps [simp]:
  "touches [] type = False"
  "touches (change # changes) type = (stateType change = type \<or> touches changes type)"
  "touches (changes @ changes') type = (touches changes type \<or> touches changes' type)"
  by (simp_all add: touches_def list_ex_iff) blast

lemma inCheck_untouched:
  "\<not> touches changes ''check'' \<Longrightarrow>
     inCheck (applyStates gamefile changes forward) = inCheck gamefile"
proof (induction changes arbitrary: gamefile)
  case Nil
  then show ?case by simp
next
  case (Cons change changes)
  then show ?case by (cases change) (simp_all split: option.splits)
qed

lemma attackers_untouched:
  "\<not> touches changes ''attackers'' \<Longrightarrow>
     attackers (applyStates gamefile changes forward) = attackers gamefile"
proof (induction changes arbitrary: gamefile)
  case Nil
  then show ?case by simp
next
  case (Cons change changes)
  then show ?case by (cases change) (simp_all split: option.splits)
qed

lemma enpassant_untouched:
  "\<not> touches changes ''enpassant'' \<Longrightarrow>
     enpassant (applyStates gamefile changes forward) = enpassant gamefile"
proof (induction changes arbitrary: gamefile)
  case Nil
  then show ?case by simp
next
  case (Cons change changes)
  then show ?case by (cases change) (simp_all split: option.splits)
qed

lemma moveRuleState_untouched:
  "\<not> touches changes ''moverulestate'' \<Longrightarrow>
     moveRuleState (applyStates gamefile changes forward) = moveRuleState gamefile"
proof (induction changes arbitrary: gamefile)
  case Nil
  then show ?case by simp
next
  case (Cons change changes)
  then show ?case by (cases change) (simp_all split: option.splits)
qed

lemma specialRights_applyState:
  "specialRights (applyState gamefile change forward) - coordsKeyOf change
     = specialRights gamefile - coordsKeyOf change"
  by (cases change) (auto split: option.splits)

lemma specialRights_untouched:
  "specialRights (applyStates gamefile changes forward) - \<Union> (coordsKeyOf ` set changes)
     = specialRights gamefile - \<Union> (coordsKeyOf ` set changes)"
proof (induction changes arbitrary: gamefile)
  case Nil
  then show ?case by simp
next
  case (Cons change changes)
  have "specialRights (applyStates (applyState gamefile change forward) changes forward)
          - \<Union> (coordsKeyOf ` set changes) - coordsKeyOf change
        = specialRights (applyState gamefile change forward)
          - \<Union> (coordsKeyOf ` set changes) - coordsKeyOf change"
    by (simp only: Cons.IH)
  also have "\<dots> = specialRights (applyState gamefile change forward) - coordsKeyOf change
          - \<Union> (coordsKeyOf ` set changes)"
    by blast
  also have "\<dots> = specialRights gamefile - coordsKeyOf change
          - \<Union> (coordsKeyOf ` set changes)"
    by (simp only: specialRights_applyState)
  finally show ?case by (simp add: Diff_eq Int_ac)
qed

lemma local_kinds_touch:
  "list_all isLocalKind changes \<Longrightarrow>
     \<not> touches changes ''enpassant'' \<and> \<not> touches changes ''moverulestate''
     \<and> \<Union> (coordsKeyOf ` set changes) = {}"
proof (induction changes)
  case Nil
  then show ?case by simp
next
  case (Cons change changes)
  then show ?case by (cases change) (simp_all add: isLocalKind_def)
qed

text \<open>
  Claim C5. For every gamefile and every move whose local changes are of the check and
  attackers kinds, as the recorders produce them, \<open>applyMove\<close> with
  \<open>globalChange\<close> false (going forward, and going backward too) leaves the
  en-passant property, the special-rights set, the move-rule counter and every
  untracked property of the gamefile unchanged, whatever the global changes of the move
  are; the check indicator is unchanged unless the move has a local check change, and
  the attacker list unless it has a local attackers change.
\<close>

theorem applyMove_local_scope:
  "list_all isLocalKind (local (state move)) \<Longrightarrow>
     enpassant (applyMove gamefile move forward False) = enpassant gamefile
     \<and> specialRights (applyMove gamefile move forward False) = specialRights gamefile
     \<and> moveRuleState (applyMove gamefile move forward False) = moveRuleState gamefile
     \<and> gamefile.more (applyMove gamefile move forward False) = gamefile.more gamefile
     \<and> (\<not> touches (local (state move)) ''check'' \<longrightarrow>
          inCheck (applyMove gamefile move forward False) = inCheck gamefile)
     \<and> (\<not> touches (local (state move)) ''attackers'' \<longrightarrow>
          attackers (applyMove gamefile move forward False) = attackers gamefile)"
proof -
  assume kinds: "list_all isLocalKind (local (state move))"
  have "specialRights (applyStates gamefile (local (state move)) forward)
          - \<Union> (coordsKeyOf ` set (local (state move)))
        = specialRights gamefile - \<Union> (coordsKeyOf ` set (local (state move)))"
    by (rule specialRights_untouched)
  then have "specialRights (applyStates gamefile (local (state move)) forward)
      = specialRights gamefile"
    using local_kinds_touch [OF kinds] by simp
  then show ?thesis
    using local_kinds_touch [OF kinds]
    by (simp add: applyMove_def applyStates_more inCheck_untouched attackers_untouched
        enpassant_untouched moveRuleState_untouched)
qed

theorem applyMove_local_scope_witness:
  "list_all isLocalKind (local (state exampleMove))
   \<and> enpassant (applyMove exampleGamefile exampleMove True False) = Some 7
   \<and> specialRights (applyMove exampleGamefile exampleMove True False) = {''5,1''}
   \<and> moveRuleState (applyMove exampleGamefile exampleMove True False) = 3
   \<and> inCheck (applyMove exampleGamefile exampleMove True False) = InCheck [(4, 5)]
   \<and> attackers (applyMove exampleGamefile exampleMove True False) = []"
proof -
  have kinds: "list_all isLocalKind (local (state exampleMove))"
    by (simp add: exampleMove_def isLocalKind_def)
  show ?thesis
    using kinds applyMove_local_scope [OF kinds, of exampleGamefile True]
    by (simp add: exampleMove_def exampleGamefile_def applyMove_def)
qed

subsection \<open>Coalescing of en-passant changes\<close>

lemma find_enpassant_None:
  "find (\<lambda>state. stateType state = ''enpassant'') changes = None
     \<longleftrightarrow> enPassantChanges changes = []"
  by (induction changes) (simp_all add: enPassantChanges_def)

lemma overwritePreExisting_append:
  "enPassantChanges changes = [] \<Longrightarrow>
     overwritePreExisting (changes @ changes') future
       = changes @ overwritePreExisting changes' future"
  by (induction changes) (simp_all add: enPassantChanges_def split: if_splits)

lemma length_overwritePreExisting:
  "length (overwritePreExisting changes future) = length changes"
  by (induction changes) simp_all

lemma enPassantChanges_append:
  "enPassantChanges (changes @ changes') = enPassantChanges changes @ enPassantChanges changes'"
  by (simp add: enPassantChanges_def)

lemma enPassantChanges_overwrite:
  "enPassantChanges changes = Enpassant current old # rest \<Longrightarrow>
     enPassantChanges (overwritePreExisting changes future) = Enpassant current future # rest"
proof (induction changes)
  case Nil
  then show ?case by (simp add: enPassantChanges_def)
next
  case (Cons change changes)
  then show ?case by (cases change) (simp_all add: enPassantChanges_def)
qed

lemma enPassantChanges_is_enpassant:
  assumes "enPassantChanges changes = change # rest"
  shows "\<exists>current future. change = Enpassant current future"
proof -
  from assms have "change \<in> set (enPassantChanges changes)" by simp
  then have "stateType change = ''enpassant''" by (simp add: enPassantChanges_def)
  then show ?thesis by (cases change) simp_all
qed

text \<open>The global array after a call of the en-passant recorder: skip, push or overwrite.\<close>

lemma global_createEnPassantState:
  "global (state (createEnPassantState move current future)) =
     (if current = future then global (state move)
      else if enPassantChanges (global (state move)) = []
           then global (state move) @ [Enpassant current future]
           else overwritePreExisting (global (state move)) future)"
proof (cases "enPassantChanges (global (state move)) = []")
  case True
  then have "find (\<lambda>state. stateType state = ''enpassant'') (global (state move)) = None"
    by (simp add: find_enpassant_None)
  with True show ?thesis
    by (simp add: createEnPassantState_def pushGlobal_def)
next
  case False
  then have "find (\<lambda>state. stateType state = ''enpassant'') (global (state move)) \<noteq> None"
    by (simp add: find_enpassant_None)
  then obtain pre where
    "find (\<lambda>state. stateType state = ''enpassant'') (global (state move)) = Some pre"
    by blast
  with False show ?thesis
    by (simp add: createEnPassantState_def)
qed

lemma local_createEnPassantState:
  "local (state (createEnPassantState move current future)) = local (state move)"
  by (simp add: createEnPassantState_def pushGlobal_def split: option.splits)

lemma enPassantChanges_createEnPassantState:
  "enPassantChanges (global (state (createEnPassantState move current future))) =
     (if current = future then enPassantChanges (global (state move))
      else case enPassantChanges (global (state move)) of
             [] \<Rightarrow> [Enpassant current future]
           | change # rest \<Rightarrow> setFuture change future # rest)"
proof (cases "enPassantChanges (global (state move))")
  case Nil
  then show ?thesis
    by (simp add: global_createEnPassantState enPassantChanges_append)
       (simp add: enPassantChanges_def)
next
  case (Cons change rest)
  then obtain c f where "change = Enpassant c f"
    using enPassantChanges_is_enpassant by blast
  with Cons show ?thesis
    by (simp add: global_createEnPassantState enPassantChanges_overwrite)
qed

lemma atMostOneEnPassant_createEnPassantState:
  "atMostOneEnPassant (global (state move)) \<Longrightarrow>
     atMostOneEnPassant (global (state (createEnPassantState move current future)))"
  by (auto simp: atMostOneEnPassant_def enPassantChanges_createEnPassantState split: list.splits)

lemma atMostOneEnPassant_push:
  "stateType change \<noteq> ''enpassant'' \<Longrightarrow> atMostOneEnPassant changes \<Longrightarrow>
     atMostOneEnPassant (changes @ [change])"
  by (simp add: atMostOneEnPassant_def enPassantChanges_def)

lemma atMostOneEnPassant_recordCall:
  assumes "atMostOneEnPassant (global (state (fst moveAndGamefile)))"
  shows "atMostOneEnPassant (global (state (fst (recordCall moveAndGamefile call))))"
proof (cases moveAndGamefile)
  case (Pair move gamefile)
  with assms show ?thesis
    by (cases call)
       (simp_all add: createCheckState_def createAttackersState_def pushLocal_def
          createSpecialRightsState_def createMoveRuleState_def pushGlobal_def
          atMostOneEnPassant_createEnPassantState atMostOneEnPassant_push)
qed

lemma atMostOneEnPassant_recordCalls:
  "atMostOneEnPassant (global (state (fst moveAndGamefile))) \<Longrightarrow>
     atMostOneEnPassant (global (state (fst (recordCalls moveAndGamefile calls))))"
  by (induction calls arbitrary: moveAndGamefile) (simp_all add: atMostOneEnPassant_recordCall)

text \<open>
  Claim C3, as stated: for every move populated by the recorders, calling the en-passant
  recorder with \<open>(A, B)\<close> and then with \<open>(B, C)\<close> leaves exactly one en-passant
  change, with current \<open>A\<close> and future \<open>C\<close>. This fails for the current value when
  the move already holds an en-passant change: the recorder overwrites the future of
  that change and keeps its current value. Below the move first records
  \<open>undefined \<rightarrow> 1\<close>; then \<open>A = 1\<close>, \<open>B = 2\<close>, \<open>C = 3\<close>, and the one change
  left has current \<open>undefined\<close>, not \<open>A\<close>.
\<close>

theorem enpassant_coalescing_current_counterexample:
  "global (state (createEnPassantState emptyMove None (Some 1))) = [Enpassant None (Some 1)]
   \<and> global (state
        (createEnPassantState
          (createEnPassantState (createEnPassantState emptyMove None (Some 1)) (Some 1) (Some 2))
          (Some 2) (Some 3)))
     = [Enpassant None (Some 3)]
   \<and> Enpassant None (Some 3) \<noteq> Enpassant (Some 1) (Some 3)"
  by (simp add: createEnPassantState_def emptyMove_def pushGlobal_def)

text \<open>
  Claim C3, amended. For every move populated by the recorders from a move with an empty
  global array, the global array holds at most one en-passant change. Calling the
  en-passant recorder with \<open>(A, B)\<close> and then with \<open>(B, C)\<close>, where \<open>A \<noteq> B\<close> and
  \<open>B \<noteq> C\<close>, leaves exactly one en-passant change in the global array, with future
  \<open>C\<close>: when the move held no en-passant change before, the change
  \<open>A \<rightarrow> C\<close> is pushed at the end of the array; when it held one, that change keeps
  its current value and its place, and its future becomes \<open>C\<close>.
\<close>

theorem enpassant_coalescing:
  "global (state move0) = [] \<Longrightarrow> move = fst (recordCalls (move0, gamefile0) calls) \<Longrightarrow>
   A \<noteq> B \<Longrightarrow> B \<noteq> C \<Longrightarrow>
     atMostOneEnPassant (global (state move))
     \<and> length (enPassantChanges (global (state
          (createEnPassantState (createEnPassantState move A B) B C)))) = 1
     \<and> (enPassantChanges (global (state move)) = [] \<longrightarrow>
          global (state (createEnPassantState (createEnPassantState move A B) B C))
            = global (state move) @ [Enpassant A C])
     \<and> (\<forall>current future.
          enPassantChanges (global (state move)) = [Enpassant current future] \<longrightarrow>
          enPassantChanges (global (state
              (createEnPassantState (createEnPassantState move A B) B C)))
            = [Enpassant current C])"
proof -
  let ?after = "createEnPassantState (createEnPassantState move A B) B C"
  assume empty: "global (state move0) = []"
    and move: "move = fst (recordCalls (move0, gamefile0) calls)"
    and ab: "A \<noteq> B" and bc: "B \<noteq> C"
  have "atMostOneEnPassant (global (state (fst (move0, gamefile0))))"
    using empty by (simp add: atMostOneEnPassant_def enPassantChanges_def)
  then have one: "atMostOneEnPassant (global (state move))"
    unfolding move by (rule atMostOneEnPassant_recordCalls)
  have fresh: "global (state ?after) = global (state move) @ [Enpassant A C]"
    if "enPassantChanges (global (state move)) = []"
    using that ab bc
    by (simp add: global_createEnPassantState enPassantChanges_append
          overwritePreExisting_append)
       (simp add: enPassantChanges_def)
  have kept: "enPassantChanges (global (state ?after)) = [Enpassant current C]"
    if "enPassantChanges (global (state move)) = [Enpassant current future]"
    for current future
    using that ab bc by (simp add: enPassantChanges_createEnPassantState)
  have exactly: "length (enPassantChanges (global (state ?after))) = 1"
  proof (cases "enPassantChanges (global (state move))")
    case Nil
    then show ?thesis by (simp add: fresh enPassantChanges_append) (simp add: enPassantChanges_def)
  next
    case (Cons change rest)
    then obtain c f where "change = Enpassant c f"
      using enPassantChanges_is_enpassant by blast
    moreover from one Cons have "rest = []"
      by (simp add: atMostOneEnPassant_def)
    ultimately show ?thesis using Cons by (simp add: kept)
  qed
  from one exactly fresh kept show ?thesis by blast
qed

theorem enpassant_coalescing_witness:
  "global (state emptyMove) = []
   \<and> fst (recordCalls (emptyMove, exampleGamefile) [SpecialRightsCall ''5,1'' True False])
     = \<lparr>state = \<lparr>local = [], global = [Specialrights True False ''5,1'']\<rparr>\<rparr>
   \<and> (None :: EnPassantRef option) \<noteq> Some 1 \<and> Some (1 :: EnPassantRef) \<noteq> Some 2
   \<and> global (state
        (createEnPassantState
          (createEnPassantState
            \<lparr>state = \<lparr>local = [], global = [Specialrights True False ''5,1'']\<rparr>\<rparr>
            None (Some 1))
          (Some 1) (Some 2)))
     = [Specialrights True False ''5,1'', Enpassant None (Some 2)]"
proof -
  have empty: "global (state emptyMove) = []"
    by (simp add: emptyMove_def)
  have move: "\<lparr>state = \<lparr>local = [], global = [Specialrights True False ''5,1'']\<rparr>\<rparr>
      = fst (recordCalls (emptyMove, exampleGamefile) [SpecialRightsCall ''5,1'' True False])"
    by (simp add: emptyMove_def createSpecialRightsState_def pushGlobal_def)
  have ab: "(None :: EnPassantRef option) \<noteq> Some 1" by simp
  have bc: "Some (1 :: EnPassantRef) \<noteq> Some 2" by simp
  show ?thesis
    using enpassant_coalescing [OF empty move ab bc]
    by (simp add: enPassantChanges_def emptyMove_def createSpecialRightsState_def
        createEnPassantState_def pushGlobal_def)
qed

text \<open>
  Claim C2, as stated: recording \<open>undefined \<rightarrow> E\<close> and then \<open>E \<rightarrow> undefined\<close>
  leaves no en-passant change in the global array. The second call is not skipped (its
  two values differ); it finds the change of the first call and overwrites its future,
  and nothing removes a change whose two values have become equal. On a move without
  state changes, with \<open>E\<close> the reference 7, the change \<open>undefined \<rightarrow> undefined\<close>
  is left.
\<close>

theorem enpassant_stray_record_counterexample:
  "global (state
      (createEnPassantState (createEnPassantState emptyMove None (Some 7)) (Some 7) None))
     = [Enpassant None None]
   \<and> enPassantChanges (global (state
      (createEnPassantState (createEnPassantState emptyMove None (Some 7)) (Some 7) None)))
     \<noteq> []"
  by (simp add: createEnPassantState_def emptyMove_def pushGlobal_def enPassantChanges_def)

text \<open>
  Claim C2, amended. For every move and every en-passant value \<open>E\<close>, after recording
  \<open>undefined \<rightarrow> E\<close> and then \<open>E \<rightarrow> undefined\<close> the global array still holds an
  en-passant change; when the move held none before, the array has gained exactly one
  change, at its end, whose current and future are both undefined: the two calls are
  coalesced into one change, which is not elided.
\<close>

theorem enpassant_set_then_cleared:
  "enPassantChanges (global (state
      (createEnPassantState (createEnPassantState move None (Some E)) (Some E) None)))
     \<noteq> []
   \<and> (enPassantChanges (global (state move)) = [] \<longrightarrow>
        global (state
          (createEnPassantState (createEnPassantState move None (Some E)) (Some E) None))
          = global (state move) @ [Enpassant None None])"
proof -
  let ?after = "createEnPassantState (createEnPassantState move None (Some E)) (Some E) None"
  have "enPassantChanges (global (state ?after)) \<noteq> []"
    by (simp add: enPassantChanges_createEnPassantState split: list.splits)
  moreover have "global (state ?after) = global (state move) @ [Enpassant None None]"
    if "enPassantChanges (global (state move)) = []"
    using that
    by (simp add: global_createEnPassantState enPassantChanges_append
          overwritePreExisting_append)
       (simp add: enPassantChanges_def)
  ultimately show ?thesis by blast
qed

theorem enpassant_set_then_cleared_witness:
  "enPassantChanges (global (state exampleMove)) = [Enpassant (Some 7) None]
   \<and> enPassantChanges (global (state emptyMove)) = []
   \<and> global (state
        (createEnPassantState (createEnPassantState emptyMove None (Some 4)) (Some 4) None))
     = global (state emptyMove) @ [Enpassant None None]"
  using enpassant_set_then_cleared [of emptyMove 4]
  by (simp add: enPassantChanges_def emptyMove_def exampleMove_def)

subsection \<open>The en-passant recorder compares references\<close>

text \<open>
  Claim C10, as stated: for every move and every two distinct en-passant objects with
  the same contents, the en-passant recorder appends a change. It does not when the
  move already holds an en-passant change: then the call overwrites the future of that
  change, and the array keeps its length. Below the move holds \<open>undefined \<rightarrow> 1\<close>, and
  the references 1 and 2 are distinct objects with the same square and pawn.
\<close>

theorem enpassant_overwrite_counterexample:
  "structurallyEqual exampleHeap 1 2 \<and> (1 :: EnPassantRef) \<noteq> 2
   \<and> global (state
        (createEnPassantState
          \<lparr>state = \<lparr>local = [], global = [Enpassant None (Some 1)]\<rparr>\<rparr> (Some 1) (Some 2)))
     = [Enpassant None (Some 2)]"
  by (simp add: structurallyEqual_def exampleHeap_def createEnPassantState_def)

text \<open>
  Claim C10, amended. The recorder skips a call only when current and future are the
  same reference (or both undefined). For every move and every two distinct references
  to objects with the same square and pawn, the call is not skipped: when the global
  array holds no en-passant change, the change with these two references is pushed at
  its end, so a change whose current and future are structurally equal is in the array;
  when the array holds an en-passant change, the future of the first one is overwritten
  with the new reference and nothing is pushed.
\<close>

theorem enpassant_elision_by_reference:
  "a \<noteq> b \<Longrightarrow> structurallyEqual heap a b \<Longrightarrow>
     (enPassantChanges (global (state move)) = [] \<longrightarrow>
        global (state (createEnPassantState move (Some a) (Some b)))
          = global (state move) @ [Enpassant (Some a) (Some b)])
     \<and> (enPassantChanges (global (state move)) \<noteq> [] \<longrightarrow>
        global (state (createEnPassantState move (Some a) (Some b)))
          = overwritePreExisting (global (state move)) (Some b)
        \<and> length (global (state (createEnPassantState move (Some a) (Some b))))
          = length (global (state move)))"
  by (simp add: global_createEnPassantState length_overwritePreExisting)

theorem enpassant_elision_by_reference_witness:
  "(1 :: EnPassantRef) \<noteq> 2 \<and> structurallyEqual exampleHeap 1 2
   \<and> enPassantChanges (global (state emptyMove)) = []
   \<and> global (state (createEnPassantState emptyMove (Some 1) (Some 2)))
     = [Enpassant (Some 1) (Some 2)]"
proof -
  have distinct: "(1 :: EnPassantRef) \<noteq> 2" by simp
  have equal: "structurallyEqual exampleHeap 1 2"
    by (simp add: structurallyEqual_def exampleHeap_def)
  show ?thesis
    using enpassant_elision_by_reference [OF distinct equal, of emptyMove] distinct equal
    by (simp add: enPassantChanges_def emptyMove_def)
qed

subsection \<open>Going backward restores the current values\<close>

lemma inCheck_restored:
  "list_all (changeMatches gamefile0) changes \<Longrightarrow>
   (\<not> touches changes ''check'' \<Longrightarrow> inCheck gamefile = inCheck gamefile0) \<Longrightarrow>
     inCheck (applyStates gamefile changes False) = inCheck gamefile0"
proof (induction changes arbitrary: gamefile)
  case Nil
  then show ?case by simp
next
  case (Cons change changes)
  then show ?case by (cases change) (simp_all split: option.splits)
qed

lemma attackers_restored:
  "list_all (changeMatches gamefile0) changes \<Longrightarrow>
   (\<not> touches changes ''attackers'' \<Longrightarrow> attackers gamefile = attackers gamefile0) \<Longrightarrow>
     attackers (applyStates gamefile changes False) = attackers gamefile0"
proof (induction changes arbitrary: gamefile)
  case Nil
  then show ?case by simp
next
  case (Cons change changes)
  then show ?case by (cases change) (simp_all split: option.splits)
qed

lemma enpassant_restored:
  "list_all (changeMatches gamefile0) changes \<Longrightarrow>
   (\<not> touches changes ''enpassant'' \<Longrightarrow> enpassant gamefile = enpassant gamefile0) \<Longrightarrow>
     enpassant (applyStates gamefile changes False) = enpassant gamefile0"
proof (induction changes arbitrary: gamefile)
  case Nil
  then show ?case by simp
next
  case (Cons change changes)
  then show ?case by (cases change) (simp_all split: option.splits)
qed

lemma moveRuleState_restored:
  "list_all (changeMatches gamefile0) changes \<Longrightarrow>
   (\<not> touches changes ''moverulestate'' \<Longrightarrow>
      moveRuleState gamefile = moveRuleState gamefile0) \<Longrightarrow>
     moveRuleState (applyStates gamefile changes False) = moveRuleState gamefile0"
proof (induction changes arbitrary: gamefile)
  case Nil
  then show ?case by simp
next
  case (Cons change changes)
  then show ?case by (cases change) (simp_all split: option.splits)
qed

lemma specialRights_backward_step:
  assumes "changeMatches gamefile0 change"
    and "specialRights gamefile - (coordsKeyOf change \<union> keys)
          = specialRights gamefile0 - (coordsKeyOf change \<union> keys)"
  shows "specialRights (applyState gamefile change False) - keys
          = specialRights gamefile0 - keys"
proof (cases change)
  case (Specialrights current future coordsKey)
  with assms show ?thesis by (cases current) auto
qed (use assms in \<open>simp_all split: option.splits\<close>)

lemma specialRights_restored:
  "list_all (changeMatches gamefile0) changes \<Longrightarrow>
   specialRights gamefile - \<Union> (coordsKeyOf ` set changes)
     = specialRights gamefile0 - \<Union> (coordsKeyOf ` set changes) \<Longrightarrow>
     specialRights (applyStates gamefile changes False) = specialRights gamefile0"
proof (induction changes arbitrary: gamefile)
  case Nil
  then show ?case by simp
next
  case (Cons change changes)
  from Cons.prems have first: "changeMatches gamefile0 change"
    and rest: "list_all (changeMatches gamefile0) changes" by simp_all
  from Cons.prems(2)
  have "specialRights gamefile - (coordsKeyOf change \<union> \<Union> (coordsKeyOf ` set changes))
      = specialRights gamefile0 - (coordsKeyOf change \<union> \<Union> (coordsKeyOf ` set changes))"
    by simp
  with first
  have "specialRights (applyState gamefile change False) - \<Union> (coordsKeyOf ` set changes)
      = specialRights gamefile0 - \<Union> (coordsKeyOf ` set changes)"
    by (rule specialRights_backward_step)
  with rest show ?case by (simp add: Cons.IH)
qed

text \<open>
  Forward and then backward over the same changes: a gamefile that has the values of
  \<open>gamefile0\<close>, except perhaps for a check indicator or an attacker list that the
  changes write, ends as \<open>gamefile0\<close>.
\<close>

lemma applyStates_roundtrip:
  assumes matches: "list_all (changeMatches gamefile0) changes"
    and check: "\<not> touches changes ''check'' \<Longrightarrow> inCheck gamefile = inCheck gamefile0"
    and attackers: "\<not> touches changes ''attackers'' \<Longrightarrow> attackers gamefile = attackers gamefile0"
    and enpassant: "enpassant gamefile = enpassant gamefile0"
    and rights: "specialRights gamefile = specialRights gamefile0"
    and moveRule: "moveRuleState gamefile = moveRuleState gamefile0"
    and more: "gamefile.more gamefile = gamefile.more gamefile0"
  shows "applyStates (applyStates gamefile changes True) changes False = gamefile0"
proof (rule gamefile.equality)
  let ?forward = "applyStates gamefile changes True"
  show "inCheck (applyStates ?forward changes False) = inCheck gamefile0"
    by (rule inCheck_restored [OF matches]) (simp add: inCheck_untouched check)
  show "attackers (applyStates ?forward changes False) = attackers gamefile0"
    by (rule attackers_restored [OF matches]) (simp add: attackers_untouched attackers)
  show "enpassant (applyStates ?forward changes False) = enpassant gamefile0"
    by (rule enpassant_restored [OF matches]) (simp add: enpassant_untouched enpassant)
  show "moveRuleState (applyStates ?forward changes False) = moveRuleState gamefile0"
    by (rule moveRuleState_restored [OF matches]) (simp add: moveRuleState_untouched moveRule)
  show "specialRights (applyStates ?forward changes False) = specialRights gamefile0"
    by (rule specialRights_restored [OF matches]) (simp add: specialRights_untouched rights)
  show "gamefile.more (applyStates ?forward changes False) = gamefile.more gamefile0"
    by (simp add: applyStates_more more)
qed

lemma applyMove_global:
  "applyMove gamefile move forward True =
     applyStates gamefile (local (state move) @ global (state move)) forward"
  by (simp add: applyMove_def applyStates_append)

subsection \<open>What the recorders keep\<close>

lemma changeMatches_overwritePreExisting:
  "list_all (changeMatches gamefile0) changes \<Longrightarrow>
     list_all (changeMatches gamefile0) (overwritePreExisting changes future)"
proof (induction changes)
  case Nil
  then show ?case by simp
next
  case (Cons change changes)
  then show ?case by (cases change) simp_all
qed

lemma changeMatches_createEnPassantState:
  "list_all (changeMatches gamefile0) (global (state move)) \<Longrightarrow>
   current = enpassant gamefile0 \<Longrightarrow>
     list_all (changeMatches gamefile0)
       (global (state (createEnPassantState move current future)))"
  by (simp add: global_createEnPassantState changeMatches_overwritePreExisting)

lemma populatedFrom_recordCall:
  assumes "callMatches gamefile0 call" and "populatedFrom gamefile0 moveAndGamefile"
  shows "populatedFrom gamefile0 (recordCall moveAndGamefile call)"
proof (cases moveAndGamefile)
  case (Pair move gamefile)
  with assms show ?thesis
    by (cases call)
       (simp_all add: populatedFrom_def createCheckState_def createAttackersState_def
          pushLocal_def createSpecialRightsState_def createMoveRuleState_def pushGlobal_def
          changeMatches_createEnPassantState local_createEnPassantState
          split: option.splits)
qed

lemma populatedFrom_recordCalls:
  "list_all (callMatches gamefile0) calls \<Longrightarrow> populatedFrom gamefile0 moveAndGamefile \<Longrightarrow>
     populatedFrom gamefile0 (recordCalls moveAndGamefile calls)"
  by (induction calls arbitrary: moveAndGamefile) (simp_all add: populatedFrom_recordCall)

text \<open>
  The recorders push check and attackers changes on the local array only, and
  en-passant, special-rights and move-rule changes on the global array only.
\<close>

lemma stateType_setFuture: "stateType (setFuture change future) = stateType change"
  by (cases change) simp_all

lemma isGlobalKind_overwritePreExisting:
  "list_all isGlobalKind changes \<Longrightarrow>
     list_all isGlobalKind (overwritePreExisting changes future)"
  by (induction changes) (auto simp: isGlobalKind_def stateType_setFuture)

lemma kinds_recordCall:
  assumes "list_all isLocalKind (local (state (fst moveAndGamefile)))"
    and "list_all isGlobalKind (global (state (fst moveAndGamefile)))"
  shows "list_all isLocalKind (local (state (fst (recordCall moveAndGamefile call))))
    \<and> list_all isGlobalKind (global (state (fst (recordCall moveAndGamefile call))))"
proof (cases moveAndGamefile)
  case (Pair move gamefile)
  with assms show ?thesis
    by (cases call)
       (simp_all add: createCheckState_def createAttackersState_def pushLocal_def
          createSpecialRightsState_def createMoveRuleState_def pushGlobal_def
          local_createEnPassantState global_createEnPassantState
          isGlobalKind_overwritePreExisting,
        simp_all add: isLocalKind_def isGlobalKind_def)
qed

lemma kinds_recordCalls:
  "list_all isLocalKind (local (state (fst moveAndGamefile))) \<Longrightarrow>
   list_all isGlobalKind (global (state (fst moveAndGamefile))) \<Longrightarrow>
     list_all isLocalKind (local (state (fst (recordCalls moveAndGamefile calls))))
     \<and> list_all isGlobalKind (global (state (fst (recordCalls moveAndGamefile calls))))"
  by (induction calls arbitrary: moveAndGamefile) (simp_all add: kinds_recordCall)

subsection \<open>Current values at the time of the call\<close>

text \<open>
  The global recorders do not write the gamefile, and a local recorder writes only the
  property of its kind. So when every call passes the value the gamefile has at the time
  of the call, and check and attackers are each recorded at most once, every call passes
  the value the gamefile had before the first call.
\<close>

lemma atMostOnce_Cons:
  "atMostOnce type (call # calls) \<Longrightarrow>
     atMostOnce type calls \<and> (callType call = type \<longrightarrow> type \<notin> callType ` set calls)"
  by (auto simp: atMostOnce_def filter_empty_conv split: if_splits)

lemma recordCall_gamefile:
  "recordCall (move, gamefile) call = (move', gamefile') \<Longrightarrow>
     enpassant gamefile' = enpassant gamefile
     \<and> specialRights gamefile' = specialRights gamefile
     \<and> moveRuleState gamefile' = moveRuleState gamefile
     \<and> (callType call \<noteq> ''check'' \<longrightarrow> inCheck gamefile' = inCheck gamefile)
     \<and> (callType call \<noteq> ''attackers'' \<longrightarrow> attackers gamefile' = attackers gamefile)"
proof (cases call)
  case (CheckCall c f)
  assume "recordCall (move, gamefile) call = (move', gamefile')"
  with CheckCall show ?thesis by (auto simp: createCheckState_def)
next
  case (AttackersCall c f)
  assume "recordCall (move, gamefile) call = (move', gamefile')"
  with AttackersCall show ?thesis
    by (cases f) (auto simp: createAttackersState_def)
next
  case (EnPassantCall c f)
  assume "recordCall (move, gamefile) call = (move', gamefile')"
  with EnPassantCall show ?thesis by simp
next
  case (SpecialRightsCall k c f)
  assume "recordCall (move, gamefile) call = (move', gamefile')"
  with SpecialRightsCall show ?thesis by simp
next
  case (MoveRuleCall c f)
  assume "recordCall (move, gamefile) call = (move', gamefile')"
  with MoveRuleCall show ?thesis by simp
qed

lemma callsMatch_once:
  "callsMatch (move, gamefile) calls \<Longrightarrow>
   atMostOnce ''check'' calls \<Longrightarrow> atMostOnce ''attackers'' calls \<Longrightarrow>
   (''check'' \<in> callType ` set calls \<Longrightarrow> inCheck gamefile = inCheck gamefile0) \<Longrightarrow>
   (''attackers'' \<in> callType ` set calls \<Longrightarrow> attackers gamefile = attackers gamefile0) \<Longrightarrow>
   enpassant gamefile = enpassant gamefile0 \<Longrightarrow>
   specialRights gamefile = specialRights gamefile0 \<Longrightarrow>
   moveRuleState gamefile = moveRuleState gamefile0 \<Longrightarrow>
     list_all (callMatches gamefile0) calls"
proof (induction calls arbitrary: move gamefile)
  case Nil
  then show ?case by simp
next
  case (Cons call calls)
  obtain move' gamefile' where step: "recordCall (move, gamefile) call = (move', gamefile')"
    by (cases "recordCall (move, gamefile) call")
  note effect = recordCall_gamefile [OF step]
  from Cons.prems(1) step have now: "callMatches gamefile call"
    and later: "callsMatch (move', gamefile') calls" by simp_all
  from atMostOnce_Cons [OF Cons.prems(2)] have check1: "atMostOnce ''check'' calls"
    and check2: "callType call = ''check'' \<longrightarrow> ''check'' \<notin> callType ` set calls"
    by simp_all
  from atMostOnce_Cons [OF Cons.prems(3)] have att1: "atMostOnce ''attackers'' calls"
    and att2: "callType call = ''attackers'' \<longrightarrow> ''attackers'' \<notin> callType ` set calls"
    by simp_all
  have first: "callMatches gamefile0 call"
    using now Cons.prems(4-8) by (cases call) simp_all
  have "list_all (callMatches gamefile0) calls"
  proof (rule Cons.IH [OF later check1 att1])
    assume later_check: "''check'' \<in> callType ` set calls"
    with check2 have "callType call \<noteq> ''check''" by blast
    with effect have "inCheck gamefile' = inCheck gamefile" by blast
    moreover from later_check have "inCheck gamefile = inCheck gamefile0"
      by (intro Cons.prems(4)) simp
    ultimately show "inCheck gamefile' = inCheck gamefile0" by simp
  next
    assume later_att: "''attackers'' \<in> callType ` set calls"
    with att2 have "callType call \<noteq> ''attackers''" by blast
    with effect have "attackers gamefile' = attackers gamefile" by blast
    moreover from later_att have "attackers gamefile = attackers gamefile0"
      by (intro Cons.prems(5)) simp
    ultimately show "attackers gamefile' = attackers gamefile0" by simp
  next
    show "enpassant gamefile' = enpassant gamefile0"
      using effect Cons.prems(6) by simp
    show "specialRights gamefile' = specialRights gamefile0"
      using effect Cons.prems(7) by simp
    show "moveRuleState gamefile' = moveRuleState gamefile0"
      using effect Cons.prems(8) by simp
  qed
  with first show ?case by simp
qed

lemma callsMatch_once_callMatches:
  "callsMatch (move, gamefile0) calls \<Longrightarrow>
   atMostOnce ''check'' calls \<Longrightarrow> atMostOnce ''attackers'' calls \<Longrightarrow>
     list_all (callMatches gamefile0) calls"
  by (rule callsMatch_once) simp_all

subsection \<open>The gamefile the recorders leave\<close>

text \<open>
  Whatever values the calls pass, the recorders leave the en-passant property, the
  special-rights set, the move-rule counter and every untracked property of the gamefile
  as they were; the check indicator and the attacker list can differ only when the move
  has got a local change of that type.
\<close>

lemma recordCall_more:
  "gamefile.more (snd (recordCall (move, gamefile) call)) = gamefile.more gamefile"
  by (cases call)
     (simp_all add: createCheckState_def createAttackersState_def split: option.splits)

lemma local_recordCall:
  "local (state (fst (recordCall (move, gamefile) call))) =
     local (state move) @
       (case call of
          CheckCall current future \<Rightarrow> [Check current future]
        | AttackersCall current future \<Rightarrow> [Attackers current future]
        | _ \<Rightarrow> [])"
  by (cases call)
     (simp_all add: createCheckState_def createAttackersState_def pushLocal_def
        local_createEnPassantState createSpecialRightsState_def createMoveRuleState_def
        pushGlobal_def)


lemma touches_local_recordCall:
  "touches (local (state (fst (recordCall (move, gamefile) call)))) type \<longleftrightarrow>
     touches (local (state move)) type
     \<or> (callType call = type \<and> (type = ''check'' \<or> type = ''attackers''))"
  unfolding local_recordCall by (cases call) auto

lemma touches_local_recordCalls:
  "touches (local (state move)) type \<Longrightarrow>
     touches (local (state (fst (recordCalls (move, gamefile) calls)))) type"
proof (induction calls arbitrary: move gamefile)
  case Nil
  then show ?case by simp
next
  case (Cons call calls)
  obtain move' gamefile' where step: "recordCall (move, gamefile) call = (move', gamefile')"
    by (cases "recordCall (move, gamefile) call")
  then have "move' = fst (recordCall (move, gamefile) call)" by simp
  with Cons.prems have "touches (local (state move')) type"
    by (simp add: touches_local_recordCall)
  then show ?case using step by (simp add: Cons.IH)
qed

lemma recordCalls_gamefile:
  "recordCalls (move, gamefile) calls = (move', gamefile') \<Longrightarrow>
     enpassant gamefile' = enpassant gamefile
     \<and> specialRights gamefile' = specialRights gamefile
     \<and> moveRuleState gamefile' = moveRuleState gamefile
     \<and> gamefile.more gamefile' = gamefile.more gamefile
     \<and> (\<not> touches (local (state move')) ''check'' \<longrightarrow> inCheck gamefile' = inCheck gamefile)
     \<and> (\<not> touches (local (state move')) ''attackers'' \<longrightarrow>
          attackers gamefile' = attackers gamefile)"
proof (induction calls arbitrary: move gamefile)
  case Nil
  then show ?case by simp
next
  case (Cons call calls)
  obtain move1 gamefile1 where step: "recordCall (move, gamefile) call = (move1, gamefile1)"
    by (cases "recordCall (move, gamefile) call")
  note effect = recordCall_gamefile [OF step]
  from step have more1: "gamefile.more gamefile1 = gamefile.more gamefile"
    using recordCall_more [of move gamefile call] by simp
  from step have move1: "move1 = fst (recordCall (move, gamefile) call)" by simp
  from Cons.prems step have rest: "recordCalls (move1, gamefile1) calls = (move', gamefile')"
    by simp
  note later = Cons.IH [OF rest]
  have check: "inCheck gamefile' = inCheck gamefile"
    if untouched: "\<not> touches (local (state move')) ''check''"
  proof -
    have "\<not> touches (local (state move1)) ''check''"
      using untouched touches_local_recordCalls [of move1 "''check''" gamefile1 calls] rest
      by auto
    then have "callType call \<noteq> ''check''"
      by (simp add: move1 touches_local_recordCall)
    with effect have "inCheck gamefile1 = inCheck gamefile" by blast
    with later untouched show ?thesis by simp
  qed
  have att: "attackers gamefile' = attackers gamefile"
    if untouched: "\<not> touches (local (state move')) ''attackers''"
  proof -
    have "\<not> touches (local (state move1)) ''attackers''"
      using untouched touches_local_recordCalls [of move1 "''attackers''" gamefile1 calls] rest
      by auto
    then have "callType call \<noteq> ''attackers''"
      by (simp add: move1 touches_local_recordCall)
    with effect have "attackers gamefile1 = attackers gamefile" by blast
    with later untouched show ?thesis by simp
  qed
  from later effect more1 check att show ?case by simp
qed

subsection \<open>The round trip\<close>

text \<open>
  Claim C1. Let the current value of every change of a move, local and global, be the
  value the tracked field has in the gamefile \<open>gamefile0\<close> (for a special-rights
  change: whether the square key is in the set). Then \<open>applyMove\<close> forward and
  then backward, both with \<open>globalChange\<close>, on \<open>gamefile0\<close> gives back
  \<open>gamefile0\<close>: the check indicator, the attacker list, the en-passant reference,
  the special-rights set, the move-rule counter, and every untracked property. And when
  the move was populated by the recorders against \<open>gamefile0\<close>, by any series of
  calls that leaves such changes, the same round trip on the gamefile the recorders
  leave, in which the local changes are already applied, gives back \<open>gamefile0\<close>
  too.
\<close>

theorem applyMove_roundtrip:
  "list_all (changeMatches gamefile0) (local (state move) @ global (state move)) \<Longrightarrow>
     applyMove (applyMove gamefile0 move True True) move False True = gamefile0
     \<and> (\<forall>move0 calls gamefile.
          recordCalls (move0, gamefile0) calls = (move, gamefile) \<longrightarrow>
          applyMove (applyMove gamefile move True True) move False True = gamefile0)"
proof -
  let ?changes = "local (state move) @ global (state move)"
  assume matches: "list_all (changeMatches gamefile0) ?changes"
  have direct: "applyStates (applyStates gamefile0 ?changes True) ?changes False = gamefile0"
    using matches by (rule applyStates_roundtrip) simp_all
  have recorded: "applyStates (applyStates gamefile ?changes True) ?changes False = gamefile0"
    if "recordCalls (move0, gamefile0) calls = (move, gamefile)" for move0 calls gamefile
  proof -
    note frame = recordCalls_gamefile [OF that]
    show ?thesis
      using matches
    proof (rule applyStates_roundtrip)
      show "inCheck gamefile = inCheck gamefile0" if "\<not> touches ?changes ''check''"
        using frame that by simp
      show "attackers gamefile = attackers gamefile0" if "\<not> touches ?changes ''attackers''"
        using frame that by simp
    qed (use frame in simp_all)
  qed
  from direct recorded show ?thesis by (simp only: applyMove_global) blast
qed

theorem applyMove_roundtrip_witness:
  "recordCalls (emptyMove, exampleGamefile) exampleCalls
     = (\<lparr>state = \<lparr>local = [Check NotInCheck (InCheck [(4, 5)]),
                             Attackers (Some []) (Some [SlidingAttacker (4, 5)])],
                    global = [Enpassant (Some 7) None, Specialrights True False ''5,1'',
                              Moverulestate 3 0]\<rparr>\<rparr>,
        \<lparr>inCheck = InCheck [(4, 5)], attackers = [SlidingAttacker (4, 5)],
          enpassant = Some 7, specialRights = {''5,1''}, moveRuleState = 3\<rparr>)
   \<and> list_all (changeMatches exampleGamefile)
        ([Check NotInCheck (InCheck [(4, 5)]),
          Attackers (Some []) (Some [SlidingAttacker (4, 5)])]
         @ [Enpassant (Some 7) None, Specialrights True False ''5,1'', Moverulestate 3 0])
   \<and> applyMove
        \<lparr>inCheck = InCheck [(4, 5)], attackers = [SlidingAttacker (4, 5)],
          enpassant = Some 7, specialRights = {''5,1''}, moveRuleState = 3\<rparr>
        \<lparr>state = \<lparr>local = [Check NotInCheck (InCheck [(4, 5)]),
                             Attackers (Some []) (Some [SlidingAttacker (4, 5)])],
                    global = [Enpassant (Some 7) None, Specialrights True False ''5,1'',
                              Moverulestate 3 0]\<rparr>\<rparr>
        True True
     = \<lparr>inCheck = InCheck [(4, 5)], attackers = [SlidingAttacker (4, 5)],
         enpassant = None, specialRights = {}, moveRuleState = 0\<rparr>
   \<and> applyMove
        (applyMove
          \<lparr>inCheck = InCheck [(4, 5)], attackers = [SlidingAttacker (4, 5)],
            enpassant = Some 7, specialRights = {''5,1''}, moveRuleState = 3\<rparr>
          \<lparr>state = \<lparr>local = [Check NotInCheck (InCheck [(4, 5)]),
                               Attackers (Some []) (Some [SlidingAttacker (4, 5)])],
                      global = [Enpassant (Some 7) None, Specialrights True False ''5,1'',
                                Moverulestate 3 0]\<rparr>\<rparr>
          True True)
        \<lparr>state = \<lparr>local = [Check NotInCheck (InCheck [(4, 5)]),
                             Attackers (Some []) (Some [SlidingAttacker (4, 5)])],
                    global = [Enpassant (Some 7) None, Specialrights True False ''5,1'',
                              Moverulestate 3 0]\<rparr>\<rparr>
        False True
     = exampleGamefile
   \<and> applyMove
        (applyMove exampleGamefile
          \<lparr>state = \<lparr>local = [Check NotInCheck (InCheck [(4, 5)]),
                               Attackers (Some []) (Some [SlidingAttacker (4, 5)])],
                      global = [Enpassant (Some 7) None, Specialrights True False ''5,1'',
                                Moverulestate 3 0]\<rparr>\<rparr>
          True True)
        \<lparr>state = \<lparr>local = [Check NotInCheck (InCheck [(4, 5)]),
                             Attackers (Some []) (Some [SlidingAttacker (4, 5)])],
                    global = [Enpassant (Some 7) None, Specialrights True False ''5,1'',
                              Moverulestate 3 0]\<rparr>\<rparr>
        False True
     = exampleGamefile"
proof -
  let ?move = "\<lparr>state = \<lparr>local = [Check NotInCheck (InCheck [(4, 5)]),
                             Attackers (Some []) (Some [SlidingAttacker (4, 5)])],
                    global = [Enpassant (Some 7) None, Specialrights True False ''5,1'',
                              Moverulestate 3 0]\<rparr>\<rparr>"
  let ?gamefile = "\<lparr>inCheck = InCheck [(4, 5)], attackers = [SlidingAttacker (4, 5)],
          enpassant = Some 7, specialRights = {''5,1''}, moveRuleState = 3\<rparr>"
  have recorded: "recordCalls (emptyMove, exampleGamefile) exampleCalls = (?move, ?gamefile)"
    by (simp add: exampleCalls_def exampleGamefile_def emptyMove_def createCheckState_def
        createAttackersState_def createEnPassantState_def createSpecialRightsState_def
        createMoveRuleState_def pushLocal_def pushGlobal_def)
  have matches: "list_all (changeMatches exampleGamefile)
      (local (state ?move) @ global (state ?move))"
    by (simp add: exampleGamefile_def)
  have forward: "applyMove ?gamefile ?move True True
     = \<lparr>inCheck = InCheck [(4, 5)], attackers = [SlidingAttacker (4, 5)],
         enpassant = None, specialRights = {}, moveRuleState = 0\<rparr>"
    by (simp add: applyMove_def)
  from applyMove_roundtrip [OF matches]
  have direct: "applyMove (applyMove exampleGamefile ?move True True) ?move False True
      = exampleGamefile"
    and after: "\<forall>move0 calls gamefile.
          recordCalls (move0, exampleGamefile) calls = (?move, gamefile) \<longrightarrow>
          applyMove (applyMove gamefile ?move True True) ?move False True = exampleGamefile"
    by blast+
  from after recorded
  have "applyMove (applyMove ?gamefile ?move True True) ?move False True = exampleGamefile"
    by blast
  with recorded matches forward direct show ?thesis by simp
qed

text \<open>
  The recorders leave such changes when every call passes as its current value the value
  of \<open>gamefile0\<close>; by \<open>callsMatch_once_callMatches\<close> that is so in particular
  when every call passes the value the gamefile has at the time of the call and check
  and attackers are each recorded at most once.
\<close>

lemma recorded_changes_match:
  assumes "local (state move0) = []" and "global (state move0) = []"
    and "list_all (callMatches gamefile0) calls"
    and "recordCalls (move0, gamefile0) calls = (move, gamefile)"
  shows "list_all (changeMatches gamefile0) (local (state move) @ global (state move))"
proof -
  have "populatedFrom gamefile0 (move0, gamefile0)"
    using assms(1,2) by (simp add: populatedFrom_def)
  with assms(3) have "populatedFrom gamefile0 (recordCalls (move0, gamefile0) calls)"
    by (rule populatedFrom_recordCalls)
  then show ?thesis by (simp add: assms(4) populatedFrom_def)
qed

text \<open>
  The condition on the current values is needed, since going backward applies the changes
  in the order they were pushed. When check is recorded as \<open>false \<rightarrow> [[4,5]]\<close> and
  then as \<open>[[4,5]] \<rightarrow> false\<close>, the current value of the second change is not the
  value before the move, and going backward writes it last.
\<close>

lemma chained_check_changes:
  "callsMatch (emptyMove, exampleGamefile)
     [CheckCall NotInCheck (InCheck [(4, 5)]), CheckCall (InCheck [(4, 5)]) NotInCheck]
   \<and> recordCalls (emptyMove, exampleGamefile)
       [CheckCall NotInCheck (InCheck [(4, 5)]), CheckCall (InCheck [(4, 5)]) NotInCheck]
     = (\<lparr>state = \<lparr>local = [Check NotInCheck (InCheck [(4, 5)]),
                              Check (InCheck [(4, 5)]) NotInCheck],
                     global = []\<rparr>\<rparr>,
        exampleGamefile)
   \<and> inCheck exampleGamefile = NotInCheck
   \<and> inCheck
        (applyMove
          (applyMove exampleGamefile
            \<lparr>state = \<lparr>local = [Check NotInCheck (InCheck [(4, 5)]),
                                 Check (InCheck [(4, 5)]) NotInCheck],
                        global = []\<rparr>\<rparr>
            True True)
          \<lparr>state = \<lparr>local = [Check NotInCheck (InCheck [(4, 5)]),
                               Check (InCheck [(4, 5)]) NotInCheck],
                      global = []\<rparr>\<rparr>
          False True)
     = InCheck [(4, 5)]"
  by (simp add: emptyMove_def exampleGamefile_def createCheckState_def pushLocal_def
      applyMove_def)

end
